theory Spec2Isabelle
  imports Complex_Main "HOL-Library.Word" "HOL-Library.Multiset"
begin

section \<open>Errors\<close>

text \<open>
  Every \<^verbatim>\<open>assert\<close> and \<^verbatim>\<open>raise\<close> of the two modules is one constructor, so
  that each failing branch of the Python code is a value of the model. Results are
  \<open>error + 'a\<close> with \<open>Inl\<close> for the exception.
\<close>

datatype error =
    AssertionError_length_mismatch
  | AssertionError_events_folder_missing
  | AssertionError_not_Event
  | AssertionError_not_FullWordEvent
  | AssertionError_timestamps_decreasing
  | AssertionError_no_continuous
  | ValueError_no_continuous
  | ValueError_unknown_stream_name string
  | FileNotFoundError
  | IndexError
  | KeyError
  | ZeroDivisionError

section \<open>events.py: data model\<close>

text \<open>
  numpy arrays are lists. Full words, states and sample numbers are integer arrays
  (\<open>int\<close>); timestamps are floating-point seconds, held here as exact rationals: the
  IEEE rounding of a product and the values NaN and infinity are outside the model.

  The fields keep their names, except that \<^verbatim>\<open>identifier\<close> is written
  \<open>identifier_\<close> (the plain word is reserved), and that the fields of
  \<^verbatim>\<open>Messages\<close>, \<^verbatim>\<open>FullWordEvent\<close> and of the continuous metadata carry a
  prefix where another class has a field of the same name. An entry of
  \<^verbatim>\<open>oeinfo["events"]\<close> is taken to have exactly the fields of
  \<^verbatim>\<open>EventMetadata\<close>, so that \<^verbatim>\<open>EventMetadata(**event)\<close> is the entry itself.
\<close>

record EventMetadata =
  channel_name :: string
  folder_name :: string
  identifier_ :: string
  sample_rate :: rat
  stream_name :: string
  type :: string
  description :: string
  source_processor :: string
  initial_state :: int

record Messages =
  msg_metadata :: EventMetadata
  msg_text :: "string list"
  msg_sample_numbers :: "int list"
  msg_timestamps :: "rat list"

record Event =
  metadata :: EventMetadata
  full_words :: "int list"
  timestamps :: "rat list"
  states :: "int list"
  sample_numbers :: "int list"

record FullWordEvent =
  fw_metadata :: EventMetadata
  fw_full_words :: "int list"
  fw_timestamps :: "rat list"
  fw_sample_numbers :: "int list"

text \<open>
  \<^verbatim>\<open>Event.__init__\<close> asserts that the four arrays have one length before it stores
  them (the chained comparison \<^verbatim>\<open>a == b == c == d\<close>).
\<close>

definition Event_init ::
  "EventMetadata \<Rightarrow> int list \<Rightarrow> rat list \<Rightarrow> int list \<Rightarrow> int list \<Rightarrow> error + Event" where
  "Event_init md fw ts st sn =
     (if length fw = length ts \<and> length ts = length st \<and> length st = length sn
      then Inr \<lparr>metadata = md, full_words = fw, timestamps = ts, states = st,
                sample_numbers = sn\<rparr>
      else Inl AssertionError_length_mismatch)"

definition Event_len :: "Event \<Rightarrow> error + nat" where
  "Event_len e =
     (if length (full_words e) = length (timestamps e)
         \<and> length (timestamps e) = length (states e)
         \<and> length (states e) = length (sample_numbers e)
      then Inr (length (full_words e))
      else Inl AssertionError_length_mismatch)"

text \<open>
  \<^verbatim>\<open>FullWordEvent\<close> is a plain \<^verbatim>\<open>@dataclass\<close>: its generated constructor stores the
  four arguments and checks nothing; only \<^verbatim>\<open>__len__\<close> asserts equal lengths.
\<close>

definition FullWordEvent_init ::
  "EventMetadata \<Rightarrow> int list \<Rightarrow> rat list \<Rightarrow> int list \<Rightarrow> error + FullWordEvent" where
  "FullWordEvent_init md fw ts sn =
     Inr \<lparr>fw_metadata = md, fw_full_words = fw, fw_timestamps = ts, fw_sample_numbers = sn\<rparr>"

definition FullWordEvent_len :: "FullWordEvent \<Rightarrow> error + nat" where
  "FullWordEvent_len e =
     (if length (fw_full_words e) = length (fw_timestamps e)
         \<and> length (fw_timestamps e) = length (fw_sample_numbers e)
      then Inr (length (fw_full_words e))
      else Inl AssertionError_length_mismatch)"

subsection \<open>The event folder on disk\<close>

text \<open>
  An event folder holds \<^verbatim>\<open>.npy\<close> files; a file that is not there makes
  \<^verbatim>\<open>np.load\<close> raise. The recording directory maps a folder name (below
  \<^verbatim>\<open>events/\<close>) to the folder, \<open>None\<close> when the path does not exist.
\<close>

record event_folder =
  full_words_npy :: "int list option"
  timestamps_npy :: "rat list option"
  states_npy :: "int list option"
  sample_numbers_npy :: "int list option"
  text_npy :: "string list option"

type_synonym recording_directory = "string \<Rightarrow> event_folder option"

definition np_load :: "'a option \<Rightarrow> error + 'a" where
  "np_load f = (case f of None \<Rightarrow> Inl FileNotFoundError | Some a \<Rightarrow> Inr a)"

definition Messages_from_folder :: "event_folder \<Rightarrow> EventMetadata \<Rightarrow> error + Messages" where
  "Messages_from_folder d md =
     (case np_load (text_npy d) of Inl e \<Rightarrow> Inl e | Inr tx \<Rightarrow>
      case np_load (sample_numbers_npy d) of Inl e \<Rightarrow> Inl e | Inr sn \<Rightarrow>
      case np_load (timestamps_npy d) of Inl e \<Rightarrow> Inl e | Inr ts \<Rightarrow>
        Inr \<lparr>msg_metadata = md, msg_text = tx, msg_sample_numbers = sn, msg_timestamps = ts\<rparr>)"

definition Event_from_folder :: "event_folder \<Rightarrow> EventMetadata \<Rightarrow> error + Event" where
  "Event_from_folder d md =
     (case np_load (full_words_npy d) of Inl e \<Rightarrow> Inl e | Inr fw \<Rightarrow>
      case np_load (timestamps_npy d) of Inl e \<Rightarrow> Inl e | Inr ts \<Rightarrow>
      case np_load (states_npy d) of Inl e \<Rightarrow> Inl e | Inr st \<Rightarrow>
      case np_load (sample_numbers_npy d) of Inl e \<Rightarrow> Inl e | Inr sn \<Rightarrow>
        Event_init md fw ts st sn)"

section \<open>events.py: removing repeated words\<close>

text \<open>
  \<^verbatim>\<open>np.diff(full_words, prepend=np.nan)\<close> first concatenates \<^verbatim>\<open>[nan]\<close> and the
  words, which makes a float array, and then subtracts each element from its successor.
  A float is \<open>NaN\<close> or a number; the words are integers that float64 holds exactly
  (absolute value up to \<open>2 ^ 53\<close>), so the numbers are \<open>int\<close>.
\<close>

datatype npfloat = NaN | Num int

fun npfloat_sub :: "npfloat \<Rightarrow> npfloat \<Rightarrow> npfloat" where
  "npfloat_sub (Num a) (Num b) = Num (a - b)"
| "npfloat_sub _ _ = NaN"

text \<open>\<^verbatim>\<open>x != 0\<close>: a NaN compares unequal to everything.\<close>

fun npfloat_ne_zero :: "npfloat \<Rightarrow> bool" where
  "npfloat_ne_zero NaN = True"
| "npfloat_ne_zero (Num d) = (d \<noteq> 0)"

fun np_diff :: "npfloat list \<Rightarrow> npfloat list" where
  "np_diff (a # b # xs) = npfloat_sub b a # np_diff (b # xs)"
| "np_diff _ = []"

definition np_diff_prepend_nan :: "int list \<Rightarrow> npfloat list" where
  "np_diff_prepend_nan ws = np_diff (NaN # map Num ws)"

text \<open>\<^verbatim>\<open>np.where(condition)[0]\<close>: the positions of the true entries, ascending.\<close>

definition np_where :: "bool list \<Rightarrow> nat list" where
  "np_where condition = filter (\<lambda>i. condition ! i) [0..<length condition]"

text \<open>\<^verbatim>\<open>a[indices]\<close> with an index array: an index past the end raises.\<close>

definition np_take :: "'a list \<Rightarrow> nat list \<Rightarrow> error + 'a list" where
  "np_take a idx =
     (if \<forall>i \<in> set idx. i < length a then Inr (map (\<lambda>i. a ! i) idx) else Inl IndexError)"

definition unique_indices :: "int list \<Rightarrow> nat list" where
  "unique_indices ws = np_where (map npfloat_ne_zero (np_diff_prepend_nan ws))"

definition remove_repeating_simultaneous_words :: "Event \<Rightarrow> error + FullWordEvent" where
  "remove_repeating_simultaneous_words event =
     (let idx = unique_indices (full_words event) in
      case np_take (full_words event) idx of Inl e \<Rightarrow> Inl e | Inr fw \<Rightarrow>
      case np_take (timestamps event) idx of Inl e \<Rightarrow> Inl e | Inr ts \<Rightarrow>
      case np_take (sample_numbers event) idx of Inl e \<Rightarrow> Inl e | Inr sn \<Rightarrow>
        FullWordEvent_init (metadata event) fw ts sn)"

section \<open>events.py: loading one event source\<close>

datatype loaded = Loaded_Event Event | Loaded_Messages Messages | Loaded_FullWordEvent FullWordEvent

text \<open>
  The result carries the warnings issued on the way (\<^verbatim>\<open>warnings.warn\<close>), in order.
\<close>

definition event_from_eventfolder ::
  "recording_directory \<Rightarrow> EventMetadata \<Rightarrow> error + (string list \<times> loaded)" where
  "event_from_eventfolder dir md =
     (case dir (folder_name md) of
        None \<Rightarrow> Inl AssertionError_events_folder_missing
      | Some d \<Rightarrow>
          if source_processor md = ''Network Events'' then
            (case Event_from_folder d md of Inl e \<Rightarrow> Inl e | Inr ev \<Rightarrow>
             case remove_repeating_simultaneous_words ev of Inl e \<Rightarrow> Inl e | Inr fw \<Rightarrow>
               Inr ([], Loaded_FullWordEvent fw))
          else if source_processor md = ''Message Center'' then
            (case Messages_from_folder d md of Inl e \<Rightarrow> Inl e | Inr m \<Rightarrow>
               Inr ([], Loaded_Messages m))
          else if source_processor md = ''NI-DAQmx'' then
            (case Event_from_folder d md of Inl e \<Rightarrow> Inl e | Inr ev \<Rightarrow>
               Inr ([], Loaded_Event ev))
          else
            (case Event_from_folder d md of Inl e \<Rightarrow> Inl e | Inr ev \<Rightarrow>
               Inr ([''Unsupported source processor: '' @ source_processor md
                       @ ''. Attempting generic Event loading...''], Loaded_Event ev)))"

text \<open>
  The two \<^verbatim>\<open>for\<close> loops over \<^verbatim>\<open>oeinfo["events"]\<close> return at the first entry that
  matches; a loop that ends without a match returns \<^verbatim>\<open>None\<close>.
\<close>

fun find_ev02_source :: "EventMetadata list \<Rightarrow> EventMetadata option" where
  "find_ev02_source [] = None"
| "find_ev02_source (event # events) =
     (if source_processor event = ''NI-DAQmx'' \<and> stream_name event = ''PXIe-6341''
      then Some event else find_ev02_source events)"

fun find_marker_source :: "EventMetadata list \<Rightarrow> EventMetadata option" where
  "find_marker_source [] = None"
| "find_marker_source (event # events) =
     (if source_processor event = ''Network Events''
      then Some event else find_marker_source events)"

section \<open>The recording, as the reader hands it over\<close>

text \<open>
  A continuous stream has its metadata and a two-dimensional sample array
  (samples \<open>\<times>\<close> channels). The array is held by columns, one list of samples per
  channel, so \<^verbatim>\<open>samples.shape[1]\<close> is the number of columns.
\<close>

record ContinuousMetadata =
  source_node_name :: string
  source_node_id :: int
  cont_stream_name :: string
  cont_sample_rate :: rat
  channel_names :: "string list"
  bit_volts :: "rat list"

record Continuous =
  cont_metadata :: ContinuousMetadata
  samples :: "int list list"

record oeinfo =
  events :: "EventMetadata list"

record BinaryRecording =
  continuous :: "Continuous list option"
  info :: oeinfo
  directory :: recording_directory

section \<open>events.py: the merged trigger stream\<close>

text \<open>
  \<^verbatim>\<open>EventPreprocessingConfig\<close> is declared in \<^verbatim>\<open>openephys_to_dh.config\<close>; the
  three fields that \<^verbatim>\<open>process_oe_events\<close> reads are taken from their uses there: an
  integer offset and two optional dictionaries from a name to a code, kept in insertion
  order.
\<close>

record EventPreprocessingConfig =
  network_events_offset :: int
  network_events_code_name_map :: "(string \<times> int) list option"
  ttl_line_names :: "(string \<times> int) list option"

text \<open>
  The archive. A \<^verbatim>\<open>CONT\<close> block is what
  \<^verbatim>\<open>create_cont_group_from_data_in_file\<close> is given; the \<^verbatim>\<open>EV02\<close> dataset has
  its two columns and its attributes. Both writers belong to the archive library: they
  are taken to store their arguments, the blocks in the order of the calls. The file name
  \<^verbatim>\<open>f"{session_name}_{recording_index}.dh5"\<close> and a board name
  \<^verbatim>\<open>f"{source_node_name}:{source_node_id}"\<close> are kept as the pairs they are formatted
  from.
\<close>

type_synonym int64 = "64 word"

record channel_info =
  GlobalChanNumber :: int
  BoardChanNo :: int
  ADCBitWidth :: int
  MaxVoltageRange :: rat
  MinVoltageRange :: rat
  AmplifChan0 :: int

record cont_block =
  cont_group_id :: int
  data :: "int list list"
  sample_period_ns :: int
  name :: string
  channels :: channel_info
  calibration :: "rat list"

record EV02_dataset =
  ev02_timestamps_ns :: "int64 list"
  ev02_event_codes :: "int list"
  attrs :: "string \<rightharpoonup> int"

record DH5File =
  dh5filename :: "string \<times> int"
  boards :: "(string \<times> int) list"
  CONT :: "cont_block list"
  EV02 :: "EV02_dataset option"

definition create_dh_file :: "string \<times> int \<Rightarrow> (string \<times> int) list \<Rightarrow> DH5File" where
  "create_dh_file filename board_names =
     \<lparr>dh5filename = filename, boards = board_names, CONT = [], EV02 = None\<rparr>"

definition create_cont_group_from_data_in_file :: "DH5File \<Rightarrow> cont_block \<Rightarrow> DH5File" where
  "create_cont_group_from_data_in_file file block = file\<lparr>CONT := CONT file @ [block]\<rparr>"

definition add_event_triggers_to_file :: "DH5File \<Rightarrow> int64 list \<Rightarrow> int list \<Rightarrow> DH5File" where
  "add_event_triggers_to_file file timestamps_ns event_codes =
     file\<lparr>EV02 := Some \<lparr>ev02_timestamps_ns = timestamps_ns, ev02_event_codes = event_codes,
                        attrs = Map.empty\<rparr>\<rparr>"

text \<open>
  \<^verbatim>\<open>np.round\<close> rounds to the nearest integer and a tie to the even neighbour;
  \<^verbatim>\<open>np.int64\<close> of the rounded value is a 64-bit signed integer (a value outside
  the 64-bit range is platform-defined in numpy; here it wraps).
\<close>

definition np_round :: "rat \<Rightarrow> int" where
  "np_round x =
     (let f = \<lfloor>x\<rfloor>; d = x - of_int f in
      if d < 1 / 2 then f else if 1 / 2 < d then f + 1
      else if even f then f else f + 1)"

definition np_int64 :: "int \<Rightarrow> int64" where
  "np_int64 i = word_of_int i"

definition timestamps_to_ns :: "rat list \<Rightarrow> int64 list" where
  "timestamps_to_ns ts = map (\<lambda>t. np_int64 (np_round (t * 1000000000))) ts"

text \<open>
  \<^verbatim>\<open>astype(np.int32)\<close> and \<^verbatim>\<open>np.int32(...)\<close>: the value modulo \<open>2 ^ 32\<close>,
  signed. (For a value outside the 32-bit range, what \<^verbatim>\<open>np.int32\<close> of a Python
  integer or of a float does depends on the numpy version and the platform; nothing below
  rests on such a value.)
\<close>

definition np_int32 :: "int \<Rightarrow> int" where
  "np_int32 c = sint (word_of_int c :: 32 word)"

text \<open>
  \<^verbatim>\<open>np.argsort\<close> on signed 64-bit keys. numpy does not fix the order of equal
  keys; the model keeps them in their original order.
\<close>

definition np_argsort :: "int64 list \<Rightarrow> nat list" where
  "np_argsort ts = sort_key (\<lambda>i. sint (ts ! i)) [0..<length ts]"

text \<open>\<^verbatim>\<open>np.diff\<close> of an int64 array: the subtraction wraps around.\<close>

fun np_diff_int64 :: "int64 list \<Rightarrow> int64 list" where
  "np_diff_int64 (a # b # xs) = (b - a) # np_diff_int64 (b # xs)"
| "np_diff_int64 _ = []"

definition all_nonneg :: "int64 list \<Rightarrow> bool" where
  "all_nonneg ds = list_all (\<lambda>d. 0 \<le> sint d) ds"

text \<open>Lines 194 to 207: the contribution of the primary trigger source.\<close>

definition ev02_contribution ::
  "BinaryRecording \<Rightarrow> error + (string list \<times> int64 list \<times> int list)" where
  "ev02_contribution recording =
     (case find_ev02_source (events (info recording)) of
        None \<Rightarrow> Inr ([], [], [])
      | Some ev02_source_metadata \<Rightarrow>
          (case event_from_eventfolder (directory recording) ev02_source_metadata of
             Inl e \<Rightarrow> Inl e
           | Inr (w, network_events_words) \<Rightarrow>
               (case network_events_words of
                  Loaded_Event ev \<Rightarrow> Inr (w, timestamps_to_ns (timestamps ev), states ev)
                | _ \<Rightarrow> Inl AssertionError_not_Event)))"

text \<open>
  Lines 209 to 224: the marker source is appended, its words shifted by the offset, and
  the codes of both sources are cast to int32.
\<close>

definition marker_contribution ::
  "BinaryRecording \<Rightarrow> int \<Rightarrow> int64 list \<Rightarrow> int list
     \<Rightarrow> error + (string list \<times> int64 list \<times> int list)" where
  "marker_contribution recording offset timestamps_ns event_codes =
     (case find_marker_source (events (info recording)) of
        None \<Rightarrow> Inr ([], timestamps_ns, event_codes)
      | Some network_events_source \<Rightarrow>
          (case event_from_eventfolder (directory recording) network_events_source of
             Inl e \<Rightarrow> Inl e
           | Inr (w, network_events_words) \<Rightarrow>
               (case network_events_words of
                  Loaded_FullWordEvent fw \<Rightarrow>
                    Inr (w,
                         timestamps_ns @ timestamps_to_ns (fw_timestamps fw),
                         map np_int32
                           (event_codes
                              @ map (\<lambda>c. c + offset) (fw_full_words fw)))
                | _ \<Rightarrow> Inl AssertionError_not_FullWordEvent)))"

text \<open>Lines 226 to 231: sort both arrays by timestamp, then the assertion.\<close>

definition sort_by_timestamp ::
  "int64 list \<Rightarrow> int list \<Rightarrow> error + (int64 list \<times> int list)" where
  "sort_by_timestamp timestamps_ns event_codes =
     (let sort_indices = np_argsort timestamps_ns in
      case np_take timestamps_ns sort_indices of Inl e \<Rightarrow> Inl e | Inr ts \<Rightarrow>
      case np_take event_codes sort_indices of Inl e \<Rightarrow> Inl e | Inr codes \<Rightarrow>
        if all_nonneg (np_diff_int64 ts) then Inr (ts, codes)
        else Inl AssertionError_timestamps_decreasing)"

text \<open>
  Lines 238 to 256: each loop over a name dictionary stores
  \<^verbatim>\<open>np.int32(event_code + network_events_offset)\<close> under the name.
\<close>

definition write_names :: "int \<Rightarrow> (string \<times> int) list \<Rightarrow> DH5File \<Rightarrow> error + DH5File" where
  "write_names offset names file =
     (case EV02 file of
        None \<Rightarrow> Inl KeyError
      | Some ev02_dataset \<Rightarrow>
          Inr (file\<lparr>EV02 := Some (ev02_dataset\<lparr>attrs :=
                 foldl (\<lambda>a (event_name, event_code).
                          a(event_name \<mapsto> np_int32 (event_code + offset)))
                       (attrs ev02_dataset) names\<rparr>)\<rparr>))"

definition write_ttl_line_names :: "EventPreprocessingConfig \<Rightarrow> DH5File \<Rightarrow> error + DH5File" where
  "write_ttl_line_names event_config file =
     (case ttl_line_names event_config of
        None \<Rightarrow> Inr file
      | Some names \<Rightarrow> write_names (network_events_offset event_config) names file)"

definition write_network_events_names ::
  "EventPreprocessingConfig \<Rightarrow> BinaryRecording \<Rightarrow> DH5File \<Rightarrow> error + DH5File" where
  "write_network_events_names event_config recording file =
     (case find_marker_source (events (info recording)) of
        None \<Rightarrow> Inr file
      | Some network_events_source \<Rightarrow>
          (case EV02 file of
             None \<Rightarrow> Inl KeyError
           | Some ev02_dataset \<Rightarrow>
               (case network_events_code_name_map event_config of
                  None \<Rightarrow> Inr file
                | Some names \<Rightarrow>
                    write_names (network_events_offset event_config) names file)))"

definition process_oe_events ::
  "EventPreprocessingConfig \<Rightarrow> BinaryRecording \<Rightarrow> DH5File \<Rightarrow> error + (string list \<times> DH5File)" where
  "process_oe_events event_config recording dh5file =
     (case ev02_contribution recording of Inl e \<Rightarrow> Inl e | Inr (w1, ts1, codes1) \<Rightarrow>
      case marker_contribution recording (network_events_offset event_config) ts1 codes1 of
        Inl e \<Rightarrow> Inl e | Inr (w2, ts2, codes2) \<Rightarrow>
      case sort_by_timestamp ts2 codes2 of Inl e \<Rightarrow> Inl e | Inr (timestamps_ns, event_codes) \<Rightarrow>
      case write_ttl_line_names event_config
             (add_event_triggers_to_file dh5file timestamps_ns event_codes) of
        Inl e \<Rightarrow> Inl e | Inr file1 \<Rightarrow>
      case write_network_events_names event_config recording file1 of
        Inl e \<Rightarrow> Inl e | Inr file2 \<Rightarrow> Inr (w1 @ w2, file2))"

section \<open>The conversion of the continuous streams\<close>

text \<open>The module \<^verbatim>\<open>dh_from_oe_recording.py\<close>.\<close>

datatype ContGroups = RAW | ANALOG | LFP | ESA | AP

fun ContGroups_value :: "ContGroups \<Rightarrow> int" where
  "ContGroups_value RAW = 1"
| "ContGroups_value ANALOG = 1601"
| "ContGroups_value LFP = 2001"
| "ContGroups_value ESA = 4001"
| "ContGroups_value AP = 6001"

text \<open>The ranges include both endpoints.\<close>

fun CONT_GROUP_RANGES :: "ContGroups \<Rightarrow> int \<times> int" where
  "CONT_GROUP_RANGES RAW = (1, 1600)"
| "CONT_GROUP_RANGES ANALOG = (1601, 2000)"
| "CONT_GROUP_RANGES LFP = (2001, 4000)"
| "CONT_GROUP_RANGES ESA = (4001, 6000)"
| "CONT_GROUP_RANGES AP = (6001, 8000)"

definition OE_PROCESSOR_CONT_GROUP_MAP :: "string \<rightharpoonup> ContGroups" where
  "OE_PROCESSOR_CONT_GROUP_MAP =
     [''PXIe-6341'' \<mapsto> RAW, ''PCIe-6341'' \<mapsto> RAW, ''example_data'' \<mapsto> RAW,
      ''Neuropix-PXI'' \<mapsto> RAW]"

text \<open>
  \<^verbatim>\<open>np.int32(1.0 / metadata.sample_rate * 1e9)\<close>: the division raises for a zero
  rate; the conversion of a float to int32 drops the fraction (towards zero).
\<close>

definition trunc_toward_zero :: "rat \<Rightarrow> int" where
  "trunc_toward_zero x = (if 0 \<le> x then \<lfloor>x\<rfloor> else \<lceil>x\<rceil>)"

definition sample_period :: "rat \<Rightarrow> error + int" where
  "sample_period rate =
     (if rate = 0 then Inl ZeroDivisionError
      else Inr (np_int32 (trunc_toward_zero (1 / rate * 1000000000))))"

definition create_channel_info :: "int \<Rightarrow> int \<Rightarrow> channel_info" where
  "create_channel_info global_chan board_chan =
     \<lparr>GlobalChanNumber = global_chan, BoardChanNo = board_chan, ADCBitWidth = 16,
      MaxVoltageRange = 10, MinVoltageRange = 10, AmplifChan0 = 0\<rparr>"

text \<open>
  The loop of \<^verbatim>\<open>create_cont_group_per_channel\<close> over
  \<^verbatim>\<open>enumerate(metadata.channel_names)\<close>. The result is the exception, if one was
  raised, and the file as it is then: blocks written before the exception stay written.
  \<^verbatim>\<open>samples[:, i : i + 1]\<close> is a slice, which is empty past the last column. The
  index array, which the archive library makes and the loop only passes on, is left out
  of a block.
\<close>

fun per_channel_loop ::
  "Continuous \<Rightarrow> ContinuousMetadata \<Rightarrow> int \<Rightarrow> int \<Rightarrow> (nat \<times> string) list \<Rightarrow> DH5File
     \<Rightarrow> error option \<times> DH5File" where
  "per_channel_loop oe_continuous md start_cont_id global_channel_index [] dh5file =
     (None, dh5file)"
| "per_channel_loop oe_continuous md start_cont_id global_channel_index
       ((channel_index, nm) # rest) dh5file =
     (let dh5_cont_id = start_cont_id + int channel_index;
          chan_info = create_channel_info global_channel_index (int channel_index);
          dat = take 1 (drop channel_index (samples oe_continuous))
      in case sample_period (cont_sample_rate md) of
           Inl e \<Rightarrow> (Some e, dh5file)
         | Inr period \<Rightarrow>
             per_channel_loop oe_continuous md start_cont_id (global_channel_index + 1) rest
               (create_cont_group_from_data_in_file dh5file
                  \<lparr>cont_group_id = dh5_cont_id, data = dat, sample_period_ns = period,
                   name = nm, channels = chan_info, calibration = bit_volts md\<rparr>))"

definition create_cont_group_per_channel ::
  "Continuous \<Rightarrow> DH5File \<Rightarrow> ContinuousMetadata \<Rightarrow> int \<Rightarrow> int \<Rightarrow> error option \<times> DH5File" where
  "create_cont_group_per_channel oe_continuous dh5file md start_cont_id
       first_global_channel_index =
     per_channel_loop oe_continuous md start_cont_id first_global_channel_index
       (enumerate 0 (channel_names md)) dh5file"

definition create_cont_group_per_continuous_stream ::
  "Continuous \<Rightarrow> DH5File \<Rightarrow> ContinuousMetadata \<Rightarrow> int \<Rightarrow> int \<Rightarrow> error option \<times> DH5File" where
  "create_cont_group_per_continuous_stream oe_continuous dh5file md start_cont_id
       last_global_channel_index =
     (let dh5_cont_id = start_cont_id;
          chan_info = create_channel_info last_global_channel_index 0
      in case sample_period (cont_sample_rate md) of
           Inl e \<Rightarrow> (Some e, dh5file)
         | Inr period \<Rightarrow>
             (None, create_cont_group_from_data_in_file dh5file
                  \<lparr>cont_group_id = dh5_cont_id, data = samples oe_continuous,
                   sample_period_ns = period, name = source_node_name md,
                   channels = chan_info, calibration = bit_volts md\<rparr>))"

text \<open>
  The loop of \<^verbatim>\<open>dh_from_oe_recording\<close> over the streams. One counter,
  \<^verbatim>\<open>global_channel_index\<close>, runs over all streams; it advances only when the
  channels are split into blocks.
\<close>

fun stream_loop ::
  "bool \<Rightarrow> int \<Rightarrow> Continuous list \<Rightarrow> DH5File \<Rightarrow> error option \<times> DH5File" where
  "stream_loop split_channels_into_cont_blocks global_channel_index [] dh5file =
     (None, dh5file)"
| "stream_loop split_channels_into_cont_blocks global_channel_index (cont # rest) dh5file =
     (let md = cont_metadata cont in
      case OE_PROCESSOR_CONT_GROUP_MAP (cont_stream_name md) of
        None \<Rightarrow> (Some (ValueError_unknown_stream_name (cont_stream_name md)), dh5file)
      | Some cont_group \<Rightarrow>
          (let group_range_start_index = fst (CONT_GROUP_RANGES cont_group);
               start_cont_id = global_channel_index + group_range_start_index;
               nChannels = int (length (samples cont))
           in if split_channels_into_cont_blocks then
                (case create_cont_group_per_channel cont dh5file md start_cont_id
                        global_channel_index of
                   (Some e, file') \<Rightarrow> (Some e, file')
                 | (None, file') \<Rightarrow>
                     stream_loop split_channels_into_cont_blocks
                       (global_channel_index + nChannels) rest file')
              else
                (case create_cont_group_per_continuous_stream cont dh5file md start_cont_id 0 of
                   (Some e, file') \<Rightarrow> (Some e, file')
                 | (None, file') \<Rightarrow>
                     stream_loop split_channels_into_cont_blocks global_channel_index rest
                       file')))"

text \<open>
  The whole conversion: the exception, if any, and the archive, \<open>None\<close> when the
  exception came before the file was created.
\<close>

definition dh_from_oe_recording ::
  "BinaryRecording \<Rightarrow> string \<Rightarrow> int \<Rightarrow> bool \<Rightarrow> error option \<times> DH5File option" where
  "dh_from_oe_recording recording session_name recording_index
       split_channels_into_cont_blocks =
     (case continuous recording of
        None \<Rightarrow> (Some AssertionError_no_continuous, None)
      | Some conts \<Rightarrow>
          if length conts = 0 then (Some ValueError_no_continuous, None)
          else
            (let board_names =
                   map (\<lambda>cont. (source_node_name (cont_metadata cont),
                                 source_node_id (cont_metadata cont))) conts;
                 dh5file = create_dh_file (session_name, recording_index) board_names
             in case stream_loop split_channels_into_cont_blocks 0 conts dh5file of
                  (err, file') \<Rightarrow> (err, Some file')))"

section \<open>Decimation\<close>

text \<open>
  Modelled from the spec: \<^verbatim>\<open>decimate_np_array\<close> of \<^verbatim>\<open>oecon.decimation\<close> is not
  among the sources; only its tests are. The specification says that the operation
  ``applies a digital low-pass anti-aliasing filter [...], then retains every
  \<^verbatim>\<open>factor\<close>-th sample'', with a finite-impulse-response and an
  infinite-impulse-response mode, the latter run forward and backward when zero phase is
  requested, and that a two-dimensional array is filtered ``along the sample axis only'',
  channel by channel.

  A digital filter is its difference equation: the output at a sample is the weighted sum
  of that input and the earlier ones (weights \<open>b\<close>) minus the weighted sum of the
  earlier outputs (weights \<open>a\<close>, none for a finite impulse response). The design of the
  weights is floating-point work and is a parameter. Every \<open>q\<close>-th sample is the
  \<open>q\<close>-th, the \<open>2q\<close>-th and so on, counted from one. A factor below one is
  outside the specification; the model then retains nothing.
\<close>

datatype filter_type = FIR | IIR

definition dot :: "rat list \<Rightarrow> rat list \<Rightarrow> rat" where
  "dot u v = sum_list (map (\<lambda>(x, y). x * y) (zip u v))"

fun lfilter_from :: "rat list \<Rightarrow> rat list \<Rightarrow> rat list \<Rightarrow> rat list \<Rightarrow> rat list \<Rightarrow> rat list" where
  "lfilter_from b a past_inputs past_outputs [] = []"
| "lfilter_from b a past_inputs past_outputs (x # xs) =
     (let y = dot b (x # past_inputs) - dot a past_outputs
      in y # lfilter_from b a (x # past_inputs) (y # past_outputs) xs)"

definition lfilter :: "rat list \<Rightarrow> rat list \<Rightarrow> rat list \<Rightarrow> rat list" where
  "lfilter b a xs = lfilter_from b a [] [] xs"

definition filtfilt :: "rat list \<Rightarrow> rat list \<Rightarrow> rat list \<Rightarrow> rat list" where
  "filtfilt b a xs = rev (lfilter b a (rev (lfilter b a xs)))"

type_synonym filter_design = "filter_type \<Rightarrow> nat \<Rightarrow> nat \<Rightarrow> rat list \<times> rat list"

definition lowpass ::
  "filter_design \<Rightarrow> filter_type \<Rightarrow> nat \<Rightarrow> bool \<Rightarrow> nat \<Rightarrow> rat list \<Rightarrow> rat list" where
  "lowpass design ftype filter_order zero_phase factor xs =
     (case design ftype filter_order factor of
        (b, a) \<Rightarrow>
          (case ftype of
             FIR \<Rightarrow> lfilter b [] xs
           | IIR \<Rightarrow> if zero_phase then filtfilt b a xs else lfilter b a xs))"

function retain_every :: "nat \<Rightarrow> 'a list \<Rightarrow> 'a list" where
  "retain_every q xs =
     (if q = 0 \<or> length xs < q then [] else xs ! (q - 1) # retain_every q (drop q xs))"
  by pat_completeness auto
termination
  by (relation "measure (\<lambda>(q, xs). length xs)") auto

declare retain_every.simps [simp del]

definition decimate_1d ::
  "filter_design \<Rightarrow> rat list \<Rightarrow> nat \<Rightarrow> nat \<Rightarrow> filter_type \<Rightarrow> bool \<Rightarrow> rat list" where
  "decimate_1d design x downsampling_factor filter_order ftype zero_phase =
     retain_every downsampling_factor
       (lowpass design ftype filter_order zero_phase downsampling_factor x)"

text \<open>
  The two-dimensional array (samples \<open>\<times>\<close> channels) is held by columns, one list of
  samples per channel, and the sample axis is the axis of the decimation.
\<close>

definition decimate_np_array ::
  "filter_design \<Rightarrow> rat list list \<Rightarrow> nat \<Rightarrow> nat \<Rightarrow> filter_type \<Rightarrow> bool \<Rightarrow> rat list list" where
  "decimate_np_array design columns downsampling_factor filter_order ftype zero_phase =
     map (\<lambda>x. decimate_1d design x downsampling_factor filter_order ftype zero_phase) columns"

section \<open>What the specification says, and observers of a result\<close>




text \<open>
  The timestamps on disk of a declared source, the merged stream, the exception and the
  name attributes of a result, and the nanosecond value of a timestamp lying in the 64-bit range and in a
  window of \<open>2 ^ 63\<close> nanoseconds that starts at \<open>lo\<close>.
\<close>

definition source_timestamps :: "BinaryRecording \<Rightarrow> EventMetadata \<Rightarrow> rat list" where
  "source_timestamps recording md =
     (case directory recording (folder_name md) of
        None \<Rightarrow> []
      | Some d \<Rightarrow> (case timestamps_npy d of None \<Rightarrow> [] | Some ts \<Rightarrow> ts))"

definition merged_stream ::
  "error + (string list \<times> DH5File) \<Rightarrow> (int64 list \<times> int list) option" where
  "merged_stream r =
     (case r of
        Inl e \<Rightarrow> None
      | Inr (w, f) \<Rightarrow>
          (case EV02 f of
             None \<Rightarrow> None
           | Some d \<Rightarrow> Some (ev02_timestamps_ns d, ev02_event_codes d)))"


definition name_attrs :: "error + (string list \<times> DH5File) \<Rightarrow> string \<Rightarrow> int option" where
  "name_attrs r =
     (case r of
        Inl e \<Rightarrow> Map.empty
      | Inr (w, f) \<Rightarrow> (case EV02 f of None \<Rightarrow> Map.empty | Some d \<Rightarrow> attrs d))"


text \<open>
  A list of declared sources without the later matches of either role: the first entry
  that matches the primary criteria and the first that matches the marker criterion
  stay, every later match is dropped, all other entries stay.
\<close>

fun drop_later_matches :: "bool \<Rightarrow> bool \<Rightarrow> EventMetadata list \<Rightarrow> EventMetadata list" where
  "drop_later_matches seen_ev02 seen_marker [] = []"
| "drop_later_matches seen_ev02 seen_marker (e # es) =
     (if source_processor e = ''NI-DAQmx'' \<and> stream_name e = ''PXIe-6341'' then
        (if seen_ev02 then drop_later_matches seen_ev02 seen_marker es
         else e # drop_later_matches True seen_marker es)
      else if source_processor e = ''Network Events'' then
        (if seen_marker then drop_later_matches seen_ev02 seen_marker es
         else e # drop_later_matches seen_ev02 True es)
      else e # drop_later_matches seen_ev02 seen_marker es)"



section \<open>Concrete recordings\<close>

function show_nat :: "nat \<Rightarrow> string" where
  "show_nat n = (if n < 10 then [char_of (48 + n)]
                 else show_nat (n div 10) @ [char_of (48 + n mod 10)])"
  by pat_completeness auto
termination
  by (relation "measure id") auto

declare show_nat.simps [simp del]

text \<open>A stream of \<open>n\<close> channels \<^verbatim>\<open>CH1\<close>, \<^verbatim>\<open>CH2\<close>, ... with two samples each.\<close>

definition numbered_stream :: "string \<Rightarrow> nat \<Rightarrow> Continuous" where
  "numbered_stream nm n =
     \<lparr>cont_metadata =
        \<lparr>source_node_name = ''Acquisition'', source_node_id = 100, cont_stream_name = nm,
         cont_sample_rate = 30000,
         channel_names = map (\<lambda>k. ''CH'' @ show_nat k) [1..<Suc n],
         bit_volts = replicate n (195 / 1000)\<rparr>,
      samples = replicate n [0, 0]\<rparr>"

definition recording_of :: "Continuous list option \<Rightarrow> BinaryRecording" where
  "recording_of conts = \<lparr>continuous = conts, info = \<lparr>events = []\<rparr>, directory = Map.empty\<rparr>"

definition two_streams :: "Continuous list" where
  "two_streams = [numbered_stream ''PXIe-6341'' 2, numbered_stream ''Neuropix-PXI'' 3]"


definition network_events_metadata :: EventMetadata where
  "network_events_metadata =
     \<lparr>channel_name = ''Network Events'', folder_name = ''NetworkEvents-105.TTL'',
      identifier_ = ''ttl.events'', sample_rate = 30000, stream_name = ''PXIe-6341'',
      type = ''int16'', description = ''words'', source_processor = ''Network Events'',
      initial_state = 0\<rparr>"


text \<open>
  The scenario of the specification: a primary source with the timestamps 0.002 s and
  0.001 s and the codes 3 and 4, a marker source with one word 1 at 0.0015 s, and the
  offset 100.
\<close>

definition ttl_metadata :: EventMetadata where
  "ttl_metadata =
     \<lparr>channel_name = ''TTL'', folder_name = ''NI-DAQmx-103.PXIe-6341/TTL'',
      identifier_ = ''ttl.events'', sample_rate = 30000, stream_name = ''PXIe-6341'',
      type = ''int16'', description = ''lines'', source_processor = ''NI-DAQmx'',
      initial_state = 0\<rparr>"

definition scenario_directory :: recording_directory where
  "scenario_directory =
     [''NI-DAQmx-103.PXIe-6341/TTL'' \<mapsto>
        \<lparr>full_words_npy = Some [4, 0], timestamps_npy = Some [2 / 1000, 1 / 1000],
         states_npy = Some [3, 4], sample_numbers_npy = Some [60, 30], text_npy = None\<rparr>,
      ''NetworkEvents-105.TTL'' \<mapsto>
        \<lparr>full_words_npy = Some [1], timestamps_npy = Some [15 / 10000],
         states_npy = Some [1], sample_numbers_npy = Some [45], text_npy = None\<rparr>]"

definition scenario_recording :: BinaryRecording where
  "scenario_recording =
     \<lparr>continuous = None, info = \<lparr>events = [ttl_metadata, network_events_metadata]\<rparr>,
      directory = scenario_directory\<rparr>"

definition scenario_config :: EventPreprocessingConfig where
  "scenario_config =
     \<lparr>network_events_offset = 100, network_events_code_name_map = None,
      ttl_line_names = None\<rparr>"

definition names_config :: EventPreprocessingConfig where
  "names_config =
     \<lparr>network_events_offset = 100, network_events_code_name_map = Some [(''Start'', 1)],
      ttl_line_names = Some [(''Reward'', 3)]\<rparr>"

definition empty_file :: DH5File where
  "empty_file = create_dh_file (''session'', 0) []"


text \<open>The scenario with a second declared source for each role, whose folders do not
  exist.\<close>

definition duplicated_sources :: "EventMetadata list" where
  "duplicated_sources =
     [ttl_metadata, network_events_metadata,
      ttl_metadata\<lparr>folder_name := ''NI-DAQmx-104.PXIe-6341/TTL''\<rparr>,
      network_events_metadata\<lparr>folder_name := ''NetworkEvents-106.TTL''\<rparr>]"

text \<open>A moving average of two samples, as a design for every filter.\<close>

definition averaging_design :: filter_design where
  "averaging_design ftype filter_order factor = ([1 / 2, 1 / 2], [])"

section \<open>Removing repeated words\<close>












section \<open>The merged trigger stream\<close>

lemma set_np_argsort: "set (np_argsort ts) = {0..<length ts}"
  by (simp add: np_argsort_def)

lemma np_take_argsort:
  "length a = length ts \<Longrightarrow> np_take a (np_argsort ts) = Inr (map (\<lambda>i. a ! i) (np_argsort ts))"
  by (simp add: np_take_def set_np_argsort)









lemma sort_by_timestamp_eq:
  assumes "length codes = length ts"
  shows "sort_by_timestamp ts codes =
           (if all_nonneg (np_diff_int64 (map (\<lambda>i. ts ! i) (np_argsort ts)))
            then Inr (map (\<lambda>i. ts ! i) (np_argsort ts), map (\<lambda>i. codes ! i) (np_argsort ts))
            else Inl AssertionError_timestamps_decreasing)"
  using assms by (simp add: sort_by_timestamp_def np_take_argsort Let_def)

lemma find_ev02_source_Some:
  "find_ev02_source evs = Some md \<Longrightarrow>
     md \<in> set evs \<and> source_processor md = ''NI-DAQmx'' \<and> stream_name md = ''PXIe-6341''"
  by (induction evs) (auto split: if_splits)

lemma find_marker_source_Some:
  "find_marker_source evs = Some md \<Longrightarrow> md \<in> set evs \<and> source_processor md = ''Network Events''"
  by (induction evs) (auto split: if_splits)

lemma Event_from_folder_Inr:
  assumes "Event_from_folder d md = Inr ev"
  shows "full_words_npy d = Some (full_words ev) \<and> timestamps_npy d = Some (timestamps ev)
       \<and> states_npy d = Some (states ev) \<and> sample_numbers_npy d = Some (sample_numbers ev)
       \<and> metadata ev = md
       \<and> length (full_words ev) = length (timestamps ev)
       \<and> length (timestamps ev) = length (states ev)
       \<and> length (states ev) = length (sample_numbers ev)"
  using assms
  by (auto simp: Event_from_folder_def np_load_def Event_init_def
      split: option.splits if_splits)


lemma remove_repeating_Inr:
  assumes "remove_repeating_simultaneous_words ev = Inr fw"
  shows "fw_metadata fw = metadata ev
       \<and> fw_full_words fw = map (\<lambda>i. full_words ev ! i) (unique_indices (full_words ev))
       \<and> fw_timestamps fw = map (\<lambda>i. timestamps ev ! i) (unique_indices (full_words ev))
       \<and> fw_sample_numbers fw = map (\<lambda>i. sample_numbers ev ! i) (unique_indices (full_words ev))
       \<and> (\<forall>i\<in>set (unique_indices (full_words ev)). i < length (timestamps ev))"
  using assms
  by (auto simp: remove_repeating_simultaneous_words_def Let_def np_take_def FullWordEvent_init_def
      split: if_splits)


lemma load_NI_DAQmx:
  assumes "source_processor md = ''NI-DAQmx''"
  shows "event_from_eventfolder dir md =
           (case dir (folder_name md) of
              None \<Rightarrow> Inl AssertionError_events_folder_missing
            | Some d \<Rightarrow> (case Event_from_folder d md of
                           Inl e \<Rightarrow> Inl e
                         | Inr ev \<Rightarrow> Inr ([], Loaded_Event ev)))"
  using assms by (simp add: event_from_eventfolder_def split: option.splits)

lemma load_Network_Events:
  assumes "source_processor md = ''Network Events''"
  shows "event_from_eventfolder dir md =
           (case dir (folder_name md) of
              None \<Rightarrow> Inl AssertionError_events_folder_missing
            | Some d \<Rightarrow> (case Event_from_folder d md of
                           Inl e \<Rightarrow> Inl e
                         | Inr ev \<Rightarrow> (case remove_repeating_simultaneous_words ev of
                                        Inl e \<Rightarrow> Inl e
                                      | Inr fw \<Rightarrow> Inr ([], Loaded_FullWordEvent fw))))"
  using assms by (simp add: event_from_eventfolder_def split: option.splits)

text \<open>What the first stage hands on, when it succeeds.\<close>

lemma ev02_contribution_Inr:
  assumes "ev02_contribution recording = Inr (w, ts, codes)"
  shows "w = [] \<and> length ts = length codes
       \<and> (case find_ev02_source (events (info recording)) of
             None \<Rightarrow> ts = [] \<and> codes = []
           | Some md \<Rightarrow> \<exists>ev. event_from_eventfolder (directory recording) md
                                 = Inr ([], Loaded_Event ev)
                             \<and> ts = timestamps_to_ns (timestamps ev) \<and> codes = states ev
                             \<and> timestamps ev = source_timestamps recording md)"
proof (cases "find_ev02_source (events (info recording))")
  case None
  with assms show ?thesis by (simp add: ev02_contribution_def)
next
  case (Some md)
  then have p: "source_processor md = ''NI-DAQmx''"
    using find_ev02_source_Some by blast
  from assms Some obtain d ev where
    d: "directory recording (folder_name md) = Some d"
    and ev: "Event_from_folder d md = Inr ev"
    and r: "w = []" "ts = timestamps_to_ns (timestamps ev)" "codes = states ev"
    by (auto simp: ev02_contribution_def load_NI_DAQmx [OF p] split: option.splits sum.splits)
  note f = Event_from_folder_Inr [OF ev]
  have "event_from_eventfolder (directory recording) md = Inr ([], Loaded_Event ev)"
    by (simp add: load_NI_DAQmx [OF p] d ev)
  moreover have "timestamps ev = source_timestamps recording md"
    using f d by (simp add: source_timestamps_def)
  ultimately show ?thesis
    using Some r f by (simp add: timestamps_to_ns_def)
qed

lemma marker_contribution_Inr:
  assumes "marker_contribution recording off ts1 codes1 = Inr (w, ts, codes)"
  shows "w = []
       \<and> (case find_marker_source (events (info recording)) of
             None \<Rightarrow> ts = ts1 \<and> codes = codes1
           | Some md \<Rightarrow> \<exists>fw. event_from_eventfolder (directory recording) md
                                 = Inr ([], Loaded_FullWordEvent fw)
                             \<and> ts = ts1 @ timestamps_to_ns (fw_timestamps fw)
                             \<and> codes = map np_int32 codes1
                                       @ map (\<lambda>c. np_int32 (c + off)) (fw_full_words fw)
                             \<and> length (fw_timestamps fw) = length (fw_full_words fw)
                             \<and> set (fw_timestamps fw) \<subseteq> set (source_timestamps recording md))"
proof (cases "find_marker_source (events (info recording))")
  case None
  with assms show ?thesis by (simp add: marker_contribution_def)
next
  case (Some md)
  then have p: "source_processor md = ''Network Events''"
    using find_marker_source_Some by blast
  from assms Some obtain d ev fw where
    d: "directory recording (folder_name md) = Some d"
    and ev: "Event_from_folder d md = Inr ev"
    and fw: "remove_repeating_simultaneous_words ev = Inr fw"
    and r: "w = []" "ts = ts1 @ timestamps_to_ns (fw_timestamps fw)"
           "codes = map np_int32 (codes1 @ map (\<lambda>c. c + off) (fw_full_words fw))"
    by (auto simp: marker_contribution_def load_Network_Events [OF p]
        split: option.splits sum.splits)
  note f = Event_from_folder_Inr [OF ev]
  note g = remove_repeating_Inr [OF fw]
  have l: "event_from_eventfolder (directory recording) md = Inr ([], Loaded_FullWordEvent fw)"
    by (simp add: load_Network_Events [OF p] d ev fw)
  have s: "set (fw_timestamps fw) \<subseteq> set (source_timestamps recording md)"
    using f d g by (auto simp: source_timestamps_def)
  have n: "length (fw_timestamps fw) = length (fw_full_words fw)"
    using g by simp
  show ?thesis
    using Some r l s n by (simp add: comp_def)
qed



lemma write_names_Inr:
  "write_names off names fl = Inr fl' \<Longrightarrow>
     \<exists>d a. EV02 fl = Some d \<and> EV02 fl' = Some (d\<lparr>attrs := a\<rparr>)"
  by (auto simp: write_names_def split: option.splits)


lemma write_ttl_line_names_Inr:
  assumes "write_ttl_line_names cfg fl = Inr fl'" and "EV02 fl = Some d"
  shows "\<exists>a. EV02 fl' = Some (d\<lparr>attrs := a\<rparr>)"
proof (cases "ttl_line_names cfg")
  case None
  with assms have "fl' = fl" by (simp add: write_ttl_line_names_def)
  with assms(2) have "EV02 fl' = Some (d\<lparr>attrs := attrs d\<rparr>)" by simp
  then show ?thesis by (rule exI [of _ "attrs d"])
next
  case (Some names)
  with assms(1) have "write_names (network_events_offset cfg) names fl = Inr fl'"
    by (simp add: write_ttl_line_names_def)
  from write_names_Inr [OF this] assms(2) show ?thesis by auto
qed

lemma write_network_events_names_Inr:
  assumes "write_network_events_names cfg recording fl = Inr fl'" and "EV02 fl = Some d"
  shows "\<exists>a. EV02 fl' = Some (d\<lparr>attrs := a\<rparr>)"
proof (cases "\<exists>names. find_marker_source (events (info recording)) \<noteq> None
                \<and> network_events_code_name_map cfg = Some names")
  case True
  then obtain names where "find_marker_source (events (info recording)) \<noteq> None"
    and "network_events_code_name_map cfg = Some names" by blast
  with assms have "write_names (network_events_offset cfg) names fl = Inr fl'"
    by (auto simp: write_network_events_names_def split: option.splits)
  from write_names_Inr [OF this] assms(2) show ?thesis by auto
next
  case False
  with assms have "fl' = fl"
    by (auto simp: write_network_events_names_def split: option.splits)
  with assms(2) have "EV02 fl' = Some (d\<lparr>attrs := attrs d\<rparr>)" by simp
  then show ?thesis by (rule exI [of _ "attrs d"])
qed




text \<open>The stages of a run of \<open>process_oe_events\<close>, as facts about its result.\<close>

lemma process_oe_events_stages:
  "process_oe_events cfg recording fl =
     (case ev02_contribution recording of
        Inl e \<Rightarrow> Inl e
      | Inr (w1, ts1, codes1) \<Rightarrow>
          (case marker_contribution recording (network_events_offset cfg) ts1 codes1 of
             Inl e \<Rightarrow> Inl e
           | Inr (w2, ts2, codes2) \<Rightarrow>
               (case sort_by_timestamp ts2 codes2 of
                  Inl e \<Rightarrow> Inl e
                | Inr (ts, codes) \<Rightarrow>
                    (case write_ttl_line_names cfg (add_event_triggers_to_file fl ts codes) of
                       Inl e \<Rightarrow> Inl e
                     | Inr file1 \<Rightarrow>
                         (case write_network_events_names cfg recording file1 of
                            Inl e \<Rightarrow> Inl e
                          | Inr file2 \<Rightarrow> Inr (w1 @ w2, file2))))))"
  by (simp add: process_oe_events_def split: sum.splits prod.splits)

lemma process_oe_events_Inr:
  assumes "process_oe_events cfg recording fl = Inr (w, fl')"
  shows "\<exists>ts1 codes1 ts2 codes2.
           ev02_contribution recording = Inr ([], ts1, codes1)
         \<and> marker_contribution recording (network_events_offset cfg) ts1 codes1
             = Inr ([], ts2, codes2)
         \<and> length ts1 = length codes1 \<and> length ts2 = length codes2
         \<and> all_nonneg (np_diff_int64 (map (\<lambda>i. ts2 ! i) (np_argsort ts2)))
         \<and> merged_stream (Inr (w, fl'))
             = Some (map (\<lambda>i. ts2 ! i) (np_argsort ts2), map (\<lambda>i. codes2 ! i) (np_argsort ts2))
         \<and> w = []"
proof -
  from assms obtain w1 ts1 codes1 w2 ts2 codes2 ts codes file1 where
    s1: "ev02_contribution recording = Inr (w1, ts1, codes1)"
    and s2: "marker_contribution recording (network_events_offset cfg) ts1 codes1
               = Inr (w2, ts2, codes2)"
    and s3: "sort_by_timestamp ts2 codes2 = Inr (ts, codes)"
    and s4: "write_ttl_line_names cfg (add_event_triggers_to_file fl ts codes) = Inr file1"
    and s5: "write_network_events_names cfg recording file1 = Inr fl'"
    and w: "w = w1 @ w2"
    unfolding process_oe_events_stages
    by (auto split: sum.splits prod.splits)
  note a = ev02_contribution_Inr [OF s1]
  note b = marker_contribution_Inr [OF s2]
  from a have w1: "w1 = []" and l1: "length ts1 = length codes1" by simp_all
  from b have w2: "w2 = []" by simp
  have l2: "length ts2 = length codes2"
    using b l1 by (cases "find_marker_source (events (info recording))")
      (auto simp: timestamps_to_ns_def)
  from s3 have nonneg: "all_nonneg (np_diff_int64 (map (\<lambda>i. ts2 ! i) (np_argsort ts2)))"
    and ts: "ts = map (\<lambda>i. ts2 ! i) (np_argsort ts2)"
    and codes: "codes = map (\<lambda>i. codes2 ! i) (np_argsort ts2)"
    unfolding sort_by_timestamp_eq [OF l2 [symmetric]] by (auto split: if_splits)
  let ?d = "\<lparr>ev02_timestamps_ns = ts, ev02_event_codes = codes, attrs = Map.empty\<rparr>"
  have "EV02 (add_event_triggers_to_file fl ts codes) = Some ?d"
    by (simp add: add_event_triggers_to_file_def)
  from write_ttl_line_names_Inr [OF s4 this] obtain a1 where
    "EV02 file1 = Some (?d\<lparr>attrs := a1\<rparr>)" ..
  from write_network_events_names_Inr [OF s5 this] obtain a2 where
    "EV02 fl' = Some (?d\<lparr>attrs := a1\<rparr>\<lparr>attrs := a2\<rparr>)" ..
  then have "merged_stream (Inr (w, fl')) = Some (ts, codes)"
    by (simp add: merged_stream_def)
  with s1 s2 w1 w2 l1 l2 nonneg ts codes w show ?thesis by simp
qed

















text \<open>
  C7. The names of the fixed trigger lines should be written with the codes of the
  primary source, which get no offset. In the scenario, with the trigger-line name
  \<^verbatim>\<open>Reward\<close> for the code 3, the marker name \<^verbatim>\<open>Start\<close> for the word 1 and
  the offset 100, the code writes \<^verbatim>\<open>Reward\<close> as 103, although the primary code 3 is
  in the stream as 3; \<^verbatim>\<open>Start\<close> is written as 101, as its code in the stream is.
\<close>

theorem ttl_line_names_are_shifted:
  "name_attrs (process_oe_events names_config scenario_recording empty_file) ''Reward''
     = Some 103
   \<and> name_attrs (process_oe_events names_config scenario_recording empty_file) ''Start''
     = Some 101
   \<and> merged_stream (process_oe_events names_config scenario_recording empty_file)
     = Some ([1000000, 1500000, 2000000], [4, 101, 3])"
  by code_simp

text \<open>
  C9. Constructing an \<^verbatim>\<open>Event\<close> from arrays of different lengths fails; constructing
  a \<^verbatim>\<open>FullWordEvent\<close> from arrays of the lengths 2, 1 and 1 gives the object, and
  only taking its length fails.
\<close>

theorem FullWordEvent_init_checks_nothing:
  "FullWordEvent_init network_events_metadata [1, 2] [0] [5]
     = Inr \<lparr>fw_metadata = network_events_metadata, fw_full_words = [1, 2],
            fw_timestamps = [0], fw_sample_numbers = [5]\<rparr>
   \<and> FullWordEvent_len \<lparr>fw_metadata = network_events_metadata, fw_full_words = [1, 2],
                         fw_timestamps = [0], fw_sample_numbers = [5]\<rparr>
     = Inl AssertionError_length_mismatch
   \<and> Event_init network_events_metadata [1, 2] [0] [1] [5] = Inl AssertionError_length_mismatch"
  by (simp add: FullWordEvent_init_def FullWordEvent_len_def Event_init_def)

lemma find_ev02_source_append:
  assumes "\<forall>x\<in>set pre. \<not> (source_processor x = ''NI-DAQmx'' \<and> stream_name x = ''PXIe-6341'')"
    and "source_processor e = ''NI-DAQmx''" and "stream_name e = ''PXIe-6341''"
  shows "find_ev02_source (pre @ e # post) = Some e"
  using assms by (induction pre) auto

lemma find_marker_source_append:
  assumes "\<forall>x\<in>set pre. source_processor x \<noteq> ''Network Events''"
    and "source_processor e = ''Network Events''"
  shows "find_marker_source (pre @ e # post) = Some e"
  using assms by (induction pre) auto

lemma find_ev02_source_seen: "find_ev02_source (drop_later_matches True m evs) = None"
  by (induction evs arbitrary: m) auto

lemma find_marker_source_seen: "find_marker_source (drop_later_matches s True evs) = None"
  by (induction evs arbitrary: s) auto

lemma find_ev02_source_drop_later:
  "find_ev02_source (drop_later_matches False m evs) = find_ev02_source evs"
  by (induction evs arbitrary: m) auto

lemma find_marker_source_drop_later:
  "find_marker_source (drop_later_matches s False evs) = find_marker_source evs"
  by (induction evs arbitrary: s) auto

lemma process_oe_events_cong:
  assumes "find_ev02_source (events (info r1)) = find_ev02_source (events (info r2))"
    and "find_marker_source (events (info r1)) = find_marker_source (events (info r2))"
    and "directory r1 = directory r2"
  shows "process_oe_events cfg r1 fl = process_oe_events cfg r2 fl"
proof -
  have a: "ev02_contribution r1 = ev02_contribution r2"
    unfolding ev02_contribution_def assms ..
  have b: "marker_contribution r1 = marker_contribution r2"
    unfolding marker_contribution_def assms ..
  have c: "write_network_events_names cfg r1 = write_network_events_names cfg r2"
    unfolding write_network_events_names_def assms ..
  show ?thesis
    unfolding process_oe_events_def a b c ..
qed

lemma process_oe_events_no_warning:
  "process_oe_events cfg recording fl = Inr (w, fl') \<Longrightarrow> w = []"
  using process_oe_events_Inr by blast

text \<open>
  C10. Each of the two searches returns the first declared source that matches, whatever
  follows it; a run on a list of declared sources is the run on that list without the
  later matches of either role, in its result, its exception and its warnings alike; and
  a run that returns has issued no warning.
\<close>

theorem first_declared_match_is_used:
  "((\<forall>x\<in>set pre. \<not> (source_processor x = ''NI-DAQmx'' \<and> stream_name x = ''PXIe-6341''))
      \<and> source_processor e = ''NI-DAQmx'' \<and> stream_name e = ''PXIe-6341''
      \<longrightarrow> find_ev02_source (pre @ e # post) = Some e)
   \<and> ((\<forall>x\<in>set pre. source_processor x \<noteq> ''Network Events'')
      \<and> source_processor e = ''Network Events''
      \<longrightarrow> find_marker_source (pre @ e # post) = Some e)
   \<and> process_oe_events cfg (recording\<lparr>info := \<lparr>events = evs\<rparr>\<rparr>) fl
       = process_oe_events cfg
           (recording\<lparr>info := \<lparr>events = drop_later_matches False False evs\<rparr>\<rparr>) fl
   \<and> (\<forall>w fl'. process_oe_events cfg recording fl = Inr (w, fl') \<longrightarrow> w = [])"
proof (intro conjI impI allI)
  assume "(\<forall>x\<in>set pre. \<not> (source_processor x = ''NI-DAQmx'' \<and> stream_name x = ''PXIe-6341''))
      \<and> source_processor e = ''NI-DAQmx'' \<and> stream_name e = ''PXIe-6341''"
  then show "find_ev02_source (pre @ e # post) = Some e"
    by (intro find_ev02_source_append) simp_all
next
  assume "(\<forall>x\<in>set pre. source_processor x \<noteq> ''Network Events'')
      \<and> source_processor e = ''Network Events''"
  then show "find_marker_source (pre @ e # post) = Some e"
    by (intro find_marker_source_append) simp_all
next
  show "process_oe_events cfg (recording\<lparr>info := \<lparr>events = evs\<rparr>\<rparr>) fl
       = process_oe_events cfg
           (recording\<lparr>info := \<lparr>events = drop_later_matches False False evs\<rparr>\<rparr>) fl"
    by (rule process_oe_events_cong)
      (simp_all add: find_ev02_source_drop_later find_marker_source_drop_later)
next
  fix w fl' assume "process_oe_events cfg recording fl = Inr (w, fl')"
  then show "w = []" by (rule process_oe_events_no_warning)
qed

theorem first_declared_match_is_used_witness:
  "find_ev02_source duplicated_sources = Some ttl_metadata
   \<and> find_marker_source duplicated_sources = Some network_events_metadata
   \<and> drop_later_matches False False duplicated_sources = [ttl_metadata, network_events_metadata]
   \<and> process_oe_events scenario_config
         (scenario_recording\<lparr>info := \<lparr>events = duplicated_sources\<rparr>\<rparr>) empty_file
       = process_oe_events scenario_config scenario_recording empty_file
   \<and> merged_stream (process_oe_events scenario_config
         (scenario_recording\<lparr>info := \<lparr>events = duplicated_sources\<rparr>\<rparr>) empty_file)
       = Some ([1000000, 1500000, 2000000], [4, 101, 3])"
proof -
  have d: "duplicated_sources
             = [] @ ttl_metadata # [network_events_metadata,
                 ttl_metadata\<lparr>folder_name := ''NI-DAQmx-104.PXIe-6341/TTL''\<rparr>,
                 network_events_metadata\<lparr>folder_name := ''NetworkEvents-106.TTL''\<rparr>]"
    "duplicated_sources
             = [ttl_metadata] @ network_events_metadata #
                [ttl_metadata\<lparr>folder_name := ''NI-DAQmx-104.PXIe-6341/TTL''\<rparr>,
                 network_events_metadata\<lparr>folder_name := ''NetworkEvents-106.TTL''\<rparr>]"
    by (simp_all add: duplicated_sources_def)
  have k: "drop_later_matches False False duplicated_sources
             = [ttl_metadata, network_events_metadata]"
    by code_simp
  have s: "scenario_recording\<lparr>info := \<lparr>events = [ttl_metadata, network_events_metadata]\<rparr>\<rparr>
             = scenario_recording"
    by (simp add: scenario_recording_def)
  have m: "merged_stream (process_oe_events scenario_config scenario_recording empty_file)
             = Some ([1000000, 1500000, 2000000], [4, 101, 3])"
    by code_simp
  note t1 = first_declared_match_is_used
    [where pre = "[]" and e = ttl_metadata
       and post = "[network_events_metadata,
                 ttl_metadata\<lparr>folder_name := ''NI-DAQmx-104.PXIe-6341/TTL''\<rparr>,
                 network_events_metadata\<lparr>folder_name := ''NetworkEvents-106.TTL''\<rparr>]"
       and cfg = scenario_config and recording = scenario_recording
       and evs = duplicated_sources and fl = empty_file, folded d(1)]
  note t2 = first_declared_match_is_used
    [where pre = "[ttl_metadata]" and e = network_events_metadata
       and post = "[ttl_metadata\<lparr>folder_name := ''NI-DAQmx-104.PXIe-6341/TTL''\<rparr>,
          network_events_metadata\<lparr>folder_name := ''NetworkEvents-106.TTL''\<rparr>]"
       and cfg = scenario_config and recording = scenario_recording
       and evs = duplicated_sources and fl = empty_file, folded d(2)]
  from t1 have a: "find_ev02_source duplicated_sources = Some ttl_metadata"
    by (simp add: ttl_metadata_def)
  from t2 have b: "find_marker_source duplicated_sources = Some network_events_metadata"
    by (simp add: ttl_metadata_def network_events_metadata_def)
  from t1 have c: "process_oe_events scenario_config
         (scenario_recording\<lparr>info := \<lparr>events = duplicated_sources\<rparr>\<rparr>) empty_file
       = process_oe_events scenario_config scenario_recording empty_file"
    by (simp add: k s)
  from a b k c m show ?thesis by simp
qed

section \<open>Block identifiers of the conversion\<close>



lemma per_channel_loop_zero_rate:
  "sample_period (cont_sample_rate md) = Inl e \<Longrightarrow>
   per_channel_loop oe md s g ics fl = (if ics = [] then (None, fl) else (Some e, fl))"
  by (cases ics) (auto simp: Let_def)

lemma per_channel_loop_ok:
  assumes "sample_period (cont_sample_rate md) = Inr p"
  shows "\<exists>bs. per_channel_loop oe md s g ics fl = (None, fl\<lparr>CONT := CONT fl @ bs\<rparr>)
            \<and> map (\<lambda>b. (cont_group_id b, name b)) bs = map (\<lambda>(i, nm). (s + int i, nm)) ics"
proof (induction ics arbitrary: g fl)
  case Nil
  show ?case by simp
next
  case (Cons a ics)
  obtain i nm where a: "a = (i, nm)" by (cases a)
  let ?b = "\<lparr>cont_group_id = s + int i, data = take 1 (drop i (samples oe)), sample_period_ns = p,
            name = nm, channels = create_channel_info g (int i), calibration = bit_volts md\<rparr>"
  let ?f = "create_cont_group_from_data_in_file fl ?b"
  from Cons.IH [of "g + 1" ?f] obtain bs where
    bs: "per_channel_loop oe md s (g + 1) ics ?f = (None, ?f\<lparr>CONT := CONT ?f @ bs\<rparr>)"
        "map (\<lambda>b. (cont_group_id b, name b)) bs = map (\<lambda>(i, nm). (s + int i, nm)) ics"
    by blast
  have "per_channel_loop oe md s g (a # ics) fl = (None, fl\<lparr>CONT := CONT fl @ (?b # bs)\<rparr>)"
    using assms bs(1) by (simp add: a Let_def create_cont_group_from_data_in_file_def)
  moreover have "map (\<lambda>b. (cont_group_id b, name b)) (?b # bs)
                   = map (\<lambda>(i, nm). (s + int i, nm)) (a # ics)"
    using bs(2) by (simp add: a)
  ultimately show ?case by blast
qed


lemma per_channel_blocks:
  assumes "sample_period (cont_sample_rate md) = Inr p"
  shows "\<exists>bs. create_cont_group_per_channel oe fl md s g = (None, fl\<lparr>CONT := CONT fl @ bs\<rparr>)
            \<and> length bs = length (channel_names md)
            \<and> (\<forall>i<length bs. cont_group_id (bs ! i) = s + int i \<and> name (bs ! i) = channel_names md ! i)"
proof -
  from per_channel_loop_ok [OF assms, of oe s g "enumerate 0 (channel_names md)" fl]
  obtain bs where bs: "per_channel_loop oe md s g (enumerate 0 (channel_names md)) fl
                         = (None, fl\<lparr>CONT := CONT fl @ bs\<rparr>)"
    and m: "map (\<lambda>b. (cont_group_id b, name b)) bs
              = map (\<lambda>(i, nm). (s + int i, nm)) (enumerate 0 (channel_names md))"
    by blast
  from m have len: "length bs = length (channel_names md)"
    by (metis length_enumerate length_map)
  have "cont_group_id (bs ! i) = s + int i \<and> name (bs ! i) = channel_names md ! i"
    if "i < length bs" for i
  proof -
    have "map (\<lambda>b. (cont_group_id b, name b)) bs ! i
            = map (\<lambda>(i, nm). (s + int i, nm)) (enumerate 0 (channel_names md)) ! i"
      by (simp only: m)
    with that len show ?thesis by (simp add: nth_enumerate_eq)
  qed
  with bs len show ?thesis
    by (auto simp: create_cont_group_per_channel_def)
qed




lemma dh_from_oe_recording_Some:
  assumes "continuous recording = Some conts" and "conts \<noteq> []"
  shows "dh_from_oe_recording recording sn ri sp =
           (fst (stream_loop sp 0 conts
                   (create_dh_file (sn, ri)
                      (map (\<lambda>cont. (source_node_name (cont_metadata cont),
                                     source_node_id (cont_metadata cont))) conts))),
            Some (snd (stream_loop sp 0 conts
                   (create_dh_file (sn, ri)
                      (map (\<lambda>cont. (source_node_name (cont_metadata cont),
                                     source_node_id (cont_metadata cont))) conts)))))"
  using assms by (simp add: dh_from_oe_recording_def Let_def split: prod.split)




lemma stream_loop_errors:
  "fst (stream_loop sp g conts fl) \<noteq> Some AssertionError_no_continuous
   \<and> fst (stream_loop sp g conts fl) \<noteq> Some ValueError_no_continuous"
proof (induction conts arbitrary: g fl)
  case Nil
  show ?case by simp
next
  case (Cons c cs)
  show ?case
  proof (cases "OE_PROCESSOR_CONT_GROUP_MAP (cont_stream_name (cont_metadata c))")
    case None
    then show ?thesis by (simp add: Let_def)
  next
    case (Some cat)
    show ?thesis
    proof (cases "sample_period (cont_sample_rate (cont_metadata c))")
      case (Inl e)
      then have e: "e = ZeroDivisionError"
        by (simp add: sample_period_def split: if_splits)
      show ?thesis
        using Some Inl Cons.IH unfolding e
        by (cases sp)
          (simp_all add: Let_def create_cont_group_per_channel_def per_channel_loop_zero_rate
            create_cont_group_per_continuous_stream_def)
    next
      case (Inr p)
      show ?thesis
      proof (cases sp)
        case True
        from per_channel_blocks [OF Inr] obtain bs where
          "create_cont_group_per_channel c fl (cont_metadata c) (g + fst (CONT_GROUP_RANGES cat)) g
             = (None, fl\<lparr>CONT := CONT fl @ bs\<rparr>)" by blast
        then show ?thesis using Some True Cons.IH by (simp add: Let_def)
      next
        case False
        then show ?thesis using Some Inr Cons.IH
          by (simp add: Let_def create_cont_group_per_continuous_stream_def)
      qed
    qed
  qed
qed







text \<open>
  C8. A recording whose collection of continuous streams is absent or empty makes the
  conversion fail with the error that names the missing data, before the archive is even
  created and whatever the other arguments are; with at least one stream the archive is
  created and neither of the two errors is raised.
\<close>

theorem no_continuous_data_is_fatal:
  "(continuous recording = None \<longrightarrow>
      dh_from_oe_recording recording sn ri sp = (Some AssertionError_no_continuous, None))
   \<and> (continuous recording = Some [] \<longrightarrow>
      dh_from_oe_recording recording sn ri sp = (Some ValueError_no_continuous, None))
   \<and> (\<forall>c cs. continuous recording = Some (c # cs) \<longrightarrow>
        fst (dh_from_oe_recording recording sn ri sp) \<noteq> Some AssertionError_no_continuous
      \<and> fst (dh_from_oe_recording recording sn ri sp) \<noteq> Some ValueError_no_continuous
      \<and> snd (dh_from_oe_recording recording sn ri sp) \<noteq> None)"
proof (intro conjI allI impI)
  assume "continuous recording = None"
  then show "dh_from_oe_recording recording sn ri sp = (Some AssertionError_no_continuous, None)"
    by (simp add: dh_from_oe_recording_def)
next
  assume "continuous recording = Some []"
  then show "dh_from_oe_recording recording sn ri sp = (Some ValueError_no_continuous, None)"
    by (simp add: dh_from_oe_recording_def)
next
  fix c cs assume a: "continuous recording = Some (c # cs)"
  have ne: "c # cs \<noteq> []" by simp
  note eq = dh_from_oe_recording_Some [OF a ne, of sn ri sp]
  show "fst (dh_from_oe_recording recording sn ri sp) \<noteq> Some AssertionError_no_continuous"
    unfolding eq fst_conv by (rule conjunct1 [OF stream_loop_errors])
  show "fst (dh_from_oe_recording recording sn ri sp) \<noteq> Some ValueError_no_continuous"
    unfolding eq fst_conv by (rule conjunct2 [OF stream_loop_errors])
  show "snd (dh_from_oe_recording recording sn ri sp) \<noteq> None"
    unfolding eq snd_conv by simp
qed

theorem no_continuous_data_is_fatal_witness:
  "dh_from_oe_recording (recording_of None) ''session'' 0 True
     = (Some AssertionError_no_continuous, None)
   \<and> dh_from_oe_recording (recording_of (Some [])) ''session'' 0 False
     = (Some ValueError_no_continuous, None)
   \<and> fst (dh_from_oe_recording (recording_of (Some two_streams)) ''session'' 0 True)
       \<noteq> Some AssertionError_no_continuous
   \<and> fst (dh_from_oe_recording (recording_of (Some two_streams)) ''session'' 0 True)
       \<noteq> Some ValueError_no_continuous
   \<and> snd (dh_from_oe_recording (recording_of (Some two_streams)) ''session'' 0 True) \<noteq> None"
  using no_continuous_data_is_fatal [of "recording_of None" "''session''" 0 True]
    no_continuous_data_is_fatal [of "recording_of (Some [])" "''session''" 0 False]
    no_continuous_data_is_fatal [of "recording_of (Some two_streams)" "''session''" 0 True]
  by (simp add: recording_of_def two_streams_def)

section \<open>The length of a decimated signal\<close>

lemma length_lfilter_from: "length (lfilter_from b a px py xs) = length xs"
  by (induction xs arbitrary: px py) (simp_all add: Let_def)

lemma length_lowpass: "length (lowpass design ftype n zp q xs) = length xs"
  by (simp add: lowpass_def lfilter_def filtfilt_def length_lfilter_from
      split: prod.splits filter_type.splits)

lemma length_retain_every: "0 < q \<Longrightarrow> length (retain_every q xs) = length xs div q"
proof (induction q xs rule: retain_every.induct)
  case (1 q xs)
  show ?case
  proof (cases "length xs < q")
    case True
    then show ?thesis by (simp add: retain_every.simps [of q xs])
  next
    case False
    with 1 have "length (retain_every q (drop q xs)) = (length xs - q) div q"
      by simp
    with False 1(2) show ?thesis
      by (simp add: retain_every.simps [of q xs] le_div_geq)
  qed
qed

lemma nth_retain_every:
  "0 < q \<Longrightarrow> k < length xs div q \<Longrightarrow> retain_every q xs ! k = xs ! (q * Suc k - 1)"
proof (induction q xs arbitrary: k rule: retain_every.induct)
  case (1 q xs)
  from 1(3) 1(2) have ge: "\<not> length xs < q"
    by (metis div_less not_less_zero)
  show ?case
  proof (cases k)
    case 0
    with ge 1(2) show ?thesis by (simp add: retain_every.simps [of q xs])
  next
    case (Suc j)
    with 1(3) ge 1(2) have j: "j < length (drop q xs) div q"
      by (simp add: le_div_geq)
    have "retain_every q (drop q xs) ! j = drop q xs ! (q * Suc j - 1)"
      using 1(1) [of j] ge 1(2) j by simp
    moreover have "q + (q * Suc j - 1) = q * Suc (Suc j) - 1"
      using 1(2) by (simp add: algebra_simps) 
    ultimately show ?thesis
      using ge 1(2) Suc by (simp add: retain_every.simps [of q xs])
  qed
qed

text \<open>
  C6, on the model of the decimation that follows the specification. For a factor of at
  least one the output has \<open>length x div factor\<close> samples, for either filter type;
  a two-dimensional array keeps its channels, and every channel is decimated along its
  samples to that length.
\<close>

theorem decimated_length_is_floor:
  assumes "1 \<le> downsampling_factor"
  shows "length (decimate_1d design x downsampling_factor filter_order ftype zero_phase)
           = length x div downsampling_factor
       \<and> length (decimate_1d design x downsampling_factor filter_order FIR zero_phase)
           = length (decimate_1d design x downsampling_factor filter_order IIR zero_phase)
       \<and> length (decimate_np_array design columns downsampling_factor filter_order ftype
                    zero_phase)
           = length columns
       \<and> (\<forall>c<length columns.
             length (decimate_np_array design columns downsampling_factor filter_order ftype
                       zero_phase ! c)
               = length (columns ! c) div downsampling_factor)"
proof -
  from assms have q: "0 < downsampling_factor" by simp
  have len: "length (decimate_1d design y downsampling_factor filter_order t zero_phase)
           = length y div downsampling_factor" for y t
    by (simp add: decimate_1d_def length_retain_every [OF q] length_lowpass)
  show ?thesis
    by (simp add: len decimate_np_array_def)
qed

theorem decimated_length_is_floor_witness:
  "length (decimate_1d averaging_design [1, 2, 3, 4, 5, 6, 7] 2 30 FIR True) = 3
   \<and> decimate_np_array averaging_design [[1, 2, 3, 4, 5, 6, 7], [1, 1, 1, 1, 1, 1, 1]] 3 30 IIR True
       = [[3, 6], [1, 1]]
   \<and> length (decimate_np_array averaging_design
                [[1, 2, 3, 4, 5, 6, 7], [1, 1, 1, 1, 1, 1, 1]] 3 30 IIR True ! 1) = 2"
proof -
  have one: "(1 :: nat) \<le> 2" "(1 :: nat) \<le> 3" by simp_all
  have v: "decimate_np_array averaging_design
             [[1, 2, 3, 4, 5, 6, 7], [1, 1, 1, 1, 1, 1, 1]] 3 30 IIR True = [[3, 6], [1, 1]]"
    by code_simp
  note a = decimated_length_is_floor [OF one(1), of averaging_design "[1, 2, 3, 4, 5, 6, 7]"
      30 FIR True "[]", THEN conjunct1]
  note b = decimated_length_is_floor [OF one(2), of averaging_design "[]" 30 IIR True
      "[[1, 2, 3, 4, 5, 6, 7], [1, 1, 1, 1, 1, 1, 1]]",
      THEN conjunct2, THEN conjunct2, THEN conjunct2, THEN spec, of 1]
  from a have a': "length (decimate_1d averaging_design [1, 2, 3, 4, 5, 6, 7] 2 30 FIR True) = 3"
    by simp
  from b have b': "length (decimate_np_array averaging_design
                [[1, 2, 3, 4, 5, 6, 7], [1, 1, 1, 1, 1, 1, 1]] 3 30 IIR True ! 1) = 2"
    by simp
  from a' v b' show ?thesis by (intro conjI)
qed

end
